theory Spec2Isabelle
  imports Complex_Main
begin

section \<open>Array subscripts\<close>

text \<open>
  The notebooks work on one-dimensional NumPy arrays, modelled as lists. A subscript
  is a Python integer (\<^typ>\<open>int\<close>). NumPy counts a negative subscript from the end
  of the array and raises \<open>IndexError\<close> when the subscript is below \<open>-n\<close> or at
  least \<open>n\<close>, \<open>n\<close> the length of the array; the exception names the subscript and
  the length ("index 5 is out of bounds for axis 0 with size 5").
\<close>

datatype py_error = IndexError int nat

definition wrapped :: "nat \<Rightarrow> int \<Rightarrow> nat" where
  "wrapped n i = nat (if i < 0 then i + int n else i)"

definition check_and_adjust_index :: "int \<Rightarrow> nat \<Rightarrow> py_error + nat" where
  "check_and_adjust_index i n =
     (if i < - int n \<or> int n \<le> i then Inl (IndexError i n) else Inr (wrapped n i))"

definition getitem :: "'a list \<Rightarrow> int \<Rightarrow> py_error + 'a" where
  "getitem xs i =
     (case check_and_adjust_index i (length xs) of
        Inl e \<Rightarrow> Inl e
      | Inr j \<Rightarrow> Inr (xs ! j))"

definition setitem :: "'a list \<Rightarrow> int \<Rightarrow> 'a \<Rightarrow> py_error + 'a list" where
  "setitem xs i v =
     (case check_and_adjust_index i (length xs) of
        Inl e \<Rightarrow> Inl e
      | Inr j \<Rightarrow> Inr (xs[j := v]))"

section \<open>The accumulation kernel\<close>

text \<open>
  \<^verbatim>\<open>
  def groupby_python(index, value, output):
      for i in range(index.shape[0]):
          output[index[i]] += value[i]
  \<close>
  The statement of the loop body evaluates \<open>index[i]\<close>, then \<open>output[index[i]]\<close>,
  then \<open>value[i]\<close>, adds, and stores the sum under the same subscript. Each of the
  subscripts may raise. The element type is any type with an addition.
\<close>

definition loop_body :: "int list \<Rightarrow> 'a::plus list \<Rightarrow> nat \<Rightarrow> 'a list \<Rightarrow> py_error + 'a list" where
  "loop_body index value i output =
     (case getitem index (int i) of
        Inl e \<Rightarrow> Inl e
      | Inr k \<Rightarrow>
          (case getitem output k of
             Inl e \<Rightarrow> Inl e
           | Inr old \<Rightarrow>
               (case getitem value (int i) of
                  Inl e \<Rightarrow> Inl e
                | Inr v \<Rightarrow> setitem output k (old + v))))"

text \<open>
  The buffer \<open>output\<close> is changed in place and the function returns nothing, so the
  model returns the exception that ended the call, if any, together with the contents
  of the buffer at that moment: what was added before an exception stays added.
\<close>

fun for_range :: "nat list \<Rightarrow> int list \<Rightarrow> 'a::plus list \<Rightarrow> 'a list \<Rightarrow> py_error option \<times> 'a list" where
  "for_range [] index value output = (None, output)"
| "for_range (i # rest) index value output =
     (case loop_body index value i output of
        Inl e \<Rightarrow> (Some e, output)
      | Inr output' \<Rightarrow> for_range rest index value output')"

definition groupby_python :: "int list \<Rightarrow> 'a::plus list \<Rightarrow> 'a list \<Rightarrow> py_error option \<times> 'a list" where
  "groupby_python index value output = for_range [0..<length index] index value output"

text \<open>
  \<^verbatim>\<open>groupby_numba = numba.jit(groupby_python, nopython=True)\<close>
  The compiled loop is the same loop, and it counts negative subscripts from the end
  as well, but it checks no bounds: where the interpreted loop raises, the compiled
  one reads or writes outside the array and has no defined result (\<open>None\<close>).
\<close>

definition groupby_numba :: "int list \<Rightarrow> 'a::plus list \<Rightarrow> 'a list \<Rightarrow> 'a list option" where
  "groupby_numba index value output =
     (case groupby_python index value output of
        (None, output') \<Rightarrow> Some output'
      | (Some e, output') \<Rightarrow> None)"

text \<open>
  What one iteration does to the buffer when none of its subscripts raises.
\<close>

definition add_at :: "int list \<Rightarrow> 'a::plus list \<Rightarrow> 'a list \<Rightarrow> nat \<Rightarrow> 'a list" where
  "add_at index value output i =
     output[wrapped (length output) (index ! i) :=
              output ! wrapped (length output) (index ! i) + value ! i]"

section \<open>Arrays, dtypes and Python scalars\<close>








section \<open>The clamp functions\<close>










section \<open>Subscripts in range\<close>

lemma check_in_range:
  "- int n \<le> i \<Longrightarrow> i < int n \<Longrightarrow> check_and_adjust_index i n = Inr (wrapped n i)"
  by (simp add: check_and_adjust_index_def)

lemma check_out_of_range:
  "i < - int n \<or> int n \<le> i \<Longrightarrow> check_and_adjust_index i n = Inl (IndexError i n)"
  by (simp add: check_and_adjust_index_def)


lemma wrapped_nonneg: "0 \<le> i \<Longrightarrow> wrapped n i = nat i"
  by (simp add: wrapped_def)

lemma getitem_in_range:
  "- int (length xs) \<le> i \<Longrightarrow> i < int (length xs) \<Longrightarrow> getitem xs i = Inr (xs ! wrapped (length xs) i)"
  by (simp add: getitem_def check_in_range)

lemma getitem_out_of_range:
  "i < - int (length xs) \<or> int (length xs) \<le> i \<Longrightarrow> getitem xs i = Inl (IndexError i (length xs))"
  by (simp add: getitem_def check_out_of_range)

lemma setitem_in_range:
  "- int (length xs) \<le> i \<Longrightarrow> i < int (length xs) \<Longrightarrow> setitem xs i v = Inr (xs[wrapped (length xs) i := v])"
  by (simp add: setitem_def check_in_range)

lemma getitem_position: "i < length xs \<Longrightarrow> getitem xs (int i) = Inr (xs ! i)"
  by (simp add: getitem_def check_and_adjust_index_def wrapped_def)

lemma getitem_past_end:
  "length xs \<le> i \<Longrightarrow> getitem xs (int i) = Inl (IndexError (int i) (length xs))"
  by (simp add: getitem_def check_and_adjust_index_def)

lemma length_add_at: "length (add_at index value out i) = length out"
  by (simp add: add_at_def)

lemma length_foldl_add_at: "length (foldl (add_at index value) out ps) = length out"
  by (induction ps arbitrary: out) (simp_all add: length_add_at)

text \<open>An iteration whose three subscripts are in range adds one value to one cell.\<close>

lemma loop_body_in_range:
  assumes "i < length index" and "i < length value"
    and "- int (length out) \<le> index ! i" and "index ! i < int (length out)"
  shows "loop_body index value i out = Inr (add_at index value out i)"
proof -
  have "getitem index (int i) = Inr (index ! i)"
    and "getitem value (int i) = Inr (value ! i)"
    using assms by (simp_all add: getitem_position)
  moreover have "getitem out (index ! i) = Inr (out ! wrapped (length out) (index ! i))"
    using assms by (simp add: getitem_in_range)
  moreover have "setitem out (index ! i) v = Inr (out[wrapped (length out) (index ! i) := v])" for v
    using assms by (simp add: setitem_in_range)
  ultimately show ?thesis
    by (simp add: loop_body_def add_at_def)
qed

text \<open>An iteration whose bucket subscript is out of range raises, naming the subscript.\<close>

lemma loop_body_bucket_out_of_range:
  assumes "i < length index"
    and "index ! i < - int (length out) \<or> int (length out) \<le> index ! i"
  shows "loop_body index value i out = Inl (IndexError (index ! i) (length out))"
proof -
  have "getitem index (int i) = Inr (index ! i)"
    using assms by (simp add: getitem_position)
  moreover have "getitem out (index ! i) = Inl (IndexError (index ! i) (length out))"
    using assms by (simp add: getitem_out_of_range)
  ultimately show ?thesis
    by (simp add: loop_body_def)
qed

text \<open>An iteration past the end of the values raises, once the bucket has been read.\<close>

lemma loop_body_value_missing:
  assumes "i < length index" and "length value \<le> i"
    and "- int (length out) \<le> index ! i" and "index ! i < int (length out)"
  shows "loop_body index value i out = Inl (IndexError (int i) (length value))"
proof -
  have "getitem index (int i) = Inr (index ! i)"
    using assms by (simp add: getitem_position)
  moreover have "getitem out (index ! i) = Inr (out ! wrapped (length out) (index ! i))"
    using assms by (simp add: getitem_in_range)
  moreover have "getitem value (int i) = Inl (IndexError (int i) (length value))"
    using assms by (simp add: getitem_past_end)
  ultimately show ?thesis
    by (simp add: loop_body_def)
qed

section \<open>The loop\<close>

lemma for_range_in_range:
  assumes "\<forall>i \<in> set ps. i < length index \<and> i < length value
             \<and> - int (length out) \<le> index ! i \<and> index ! i < int (length out)"
  shows "for_range ps index value out = (None, foldl (add_at index value) out ps)"
  using assms
proof (induction ps arbitrary: out)
  case Nil
  show ?case by simp
next
  case (Cons i ps)
  have body: "loop_body index value i out = Inr (add_at index value out i)"
    using Cons.prems by (intro loop_body_in_range) simp_all
  have "\<forall>j \<in> set ps. j < length index \<and> j < length value
          \<and> - int (length (add_at index value out i)) \<le> index ! j
          \<and> index ! j < int (length (add_at index value out i))"
    using Cons.prems by (simp add: length_add_at)
  then have "for_range ps index value (add_at index value out i)
      = (None, foldl (add_at index value) (add_at index value out i) ps)"
    by (rule Cons.IH)
  with body show ?case by simp
qed

lemma for_range_append:
  "for_range (ps @ qs) index value out =
     (case for_range ps index value out of
        (None, out') \<Rightarrow> for_range qs index value out'
      | (Some e, out') \<Rightarrow> (Some e, out'))"
  by (induction ps arbitrary: out) (simp_all split: sum.splits)

text \<open>
  A loop that meets its first raising iteration at position \<open>p\<close> has run the
  iterations before \<open>p\<close> and stops there.
\<close>

lemma groupby_python_stops:
  assumes p: "p < length index"
    and before: "\<forall>i < p. i < length value
             \<and> - int (length out) \<le> index ! i \<and> index ! i < int (length out)"
    and fails: "loop_body index value p (foldl (add_at index value) out [0..<p]) = Inl e"
  shows "groupby_python index value out = (Some e, foldl (add_at index value) out [0..<p])"
proof -
  have split: "[0..<length index] = [0..<p] @ p # [Suc p..<length index]"
    using p by (metis less_imp_le_nat upt_add_eq_append upt_conv_Cons le0 le_Suc_ex)
  have "for_range [0..<p] index value out = (None, foldl (add_at index value) out [0..<p])"
    using p before by (intro for_range_in_range) auto
  then show ?thesis
    using fails by (simp add: groupby_python_def split for_range_append)
qed

lemma groupby_python_in_range:
  assumes "length index \<le> length value"
    and "\<forall>i < length index. - int (length out) \<le> index ! i \<and> index ! i < int (length out)"
  shows "groupby_python index value out
           = (None, foldl (add_at index value) out [0..<length index])"
  unfolding groupby_python_def using assms by (intro for_range_in_range) auto

section \<open>The concrete scenario\<close>

text \<open>
  C8. On \<open>indices = [0, 2, 0, 1]\<close>, \<open>values = [1.0, 5.0, 3.0, 2.0]\<close> and a buffer
  of three zeros the kernel ends without an exception and leaves \<open>[4.0, 2.0, 5.0]\<close>
  in the buffer. (The sums are small whole numbers, which binary floating point adds
  exactly, so the real numbers of the model are the values the program computes.)
\<close>

theorem groupby_python_concrete_scenario:
  "groupby_python [0, 2, 0, 1] [1, 5, 3, 2 :: real] [0, 0, 0] = (None, [4, 2, 5])"
  by (simp add: groupby_python_def upt_conv_Cons loop_body_def getitem_def setitem_def
      check_and_adjust_index_def wrapped_def)

section \<open>What the loop leaves in the buffer\<close>

lemma add_at_nonneg:
  "0 \<le> index ! i \<Longrightarrow>
     add_at index value out i = out[nat (index ! i) := out ! nat (index ! i) + value ! i]"
  by (simp add: add_at_def wrapped_nonneg)

lemma foldl_add_at_nonneg:
  assumes "\<forall>i \<in> set ps. 0 \<le> index ! i"
  shows "foldl (add_at index value) out ps
       = foldl (\<lambda>buf i. buf[nat (index ! i) := buf ! nat (index ! i) + value ! i]) out ps"
  using assms by (intro foldl_cong) (simp_all add: add_at_nonneg)

lemma nth_add_at:
  assumes "k < length out"
  shows "add_at index value out i ! k =
           (if wrapped (length out) (index ! i) = k then out ! k + value ! i else out ! k)"
  using assms by (auto simp: add_at_def)

lemma nth_foldl_add_at_untouched:
  assumes "k < length out"
    and "\<forall>i \<in> set ps. wrapped (length out) (index ! i) \<noteq> k"
  shows "foldl (add_at index value) out ps ! k = out ! k"
  using assms
proof (induction ps arbitrary: out)
  case Nil
  show ?case by simp
next
  case (Cons i ps)
  have "foldl (add_at index value) (add_at index value out i) ps ! k
      = add_at index value out i ! k"
    using Cons.prems by (intro Cons.IH) (simp_all add: length_add_at)
  also have "\<dots> = out ! k"
    using Cons.prems by (simp add: nth_add_at)
  finally show ?case by simp
qed




lemma valid_positions:
  assumes "\<forall>j \<in> set index. 0 \<le> j \<and> j < int (length out)"
  shows "\<forall>i < length index. - int (length out) \<le> index ! i \<and> index ! i < int (length out)"
    and "\<forall>i \<in> set [0..<length index]. 0 \<le> index ! i"
  using assms by (auto simp: all_set_conv_all_nth intro: order_trans [of _ 0])

lemma groupby_python_valid:
  assumes "length index = length value"
    and "\<forall>j \<in> set index. 0 \<le> j \<and> j < int (length out)"
  shows "groupby_python index value out
       = (None, foldl (add_at index value) out [0..<length index])"
  using assms valid_positions(1) [of index out] by (intro groupby_python_in_range) simp_all


section \<open>Bucket sums\<close>



section \<open>One pass, left to right\<close>

text \<open>
  C4. For every valid input the result of the kernel is the left-to-right fold over
  the positions \<open>0, 1, \<dots>, N - 1\<close> that adds \<open>values[i]\<close> into cell
  \<open>indices[i]\<close> of the buffer; the compiled kernel gives the same buffer. Nothing is
  assumed of the addition, so the statement covers an addition that rounds.
\<close>

theorem groupby_python_linear_pass:
  fixes "value" :: "'a::plus list"
  assumes "length index = length value"
    and "\<forall>j \<in> set index. 0 \<le> j \<and> j < int (length initial)"
    and "0 < length initial"
  shows "groupby_python index value initial
           = (None, foldl (\<lambda>buf i. buf[nat (index ! i) := buf ! nat (index ! i) + value ! i])
                      initial [0..<length index])
       \<and> groupby_numba index value initial
           = Some (foldl (\<lambda>buf i. buf[nat (index ! i) := buf ! nat (index ! i) + value ! i])
                      initial [0..<length index])"
proof -
  have "groupby_python index value initial
      = (None, foldl (add_at index value) initial [0..<length index])"
    using assms(1,2) by (rule groupby_python_valid)
  also have "foldl (add_at index value) initial [0..<length index]
      = foldl (\<lambda>buf i. buf[nat (index ! i) := buf ! nat (index ! i) + value ! i])
          initial [0..<length index]"
    using valid_positions(2) [OF assms(2)] by (rule foldl_add_at_nonneg)
  finally show ?thesis
    by (simp add: groupby_numba_def)
qed

theorem groupby_python_linear_pass_witness:
  "length [1, 0, 1 :: int] = length [7, 8, 9 :: int]
   \<and> list_all (\<lambda>j. 0 \<le> j \<and> j < int (length [100, 200 :: int])) [1, 0, 1 :: int]
   \<and> 0 < length [100, 200 :: int]
   \<and> groupby_python [1, 0, 1] [7, 8, 9 :: int] [100, 200] = (None, [108, 216])
   \<and> groupby_numba [1, 0, 1] [7, 8, 9 :: int] [100, 200] = Some [108, 216]"
  using groupby_python_linear_pass [of "[1, 0, 1]" "[7, 8, 9 :: int]" "[100, 200]"]
  by (simp add: upt_conv_Cons)

section \<open>Conservation\<close>



section \<open>Untouched buckets\<close>

text \<open>
  C6. For every valid input, a cell \<open>k\<close> that no index names holds its initial value
  after the kernel; and on empty indices and values the kernel ends without an
  exception and leaves every buffer as it was.
\<close>

theorem groupby_python_frame:
  fixes "value" :: "'a::plus list"
  shows "(length index = length value
          \<and> (\<forall>j \<in> set index. 0 \<le> j \<and> j < int (length initial))
          \<and> 0 < length initial
          \<longrightarrow> (\<forall>k < length initial. (\<forall>i < length index. index ! i \<noteq> int k)
                 \<longrightarrow> snd (groupby_python index value initial) ! k = initial ! k))
       \<and> groupby_python [] ([] :: 'a list) initial = (None, initial)"
proof (intro conjI impI allI)
  fix k
  assume valid: "length index = length value
      \<and> (\<forall>j \<in> set index. 0 \<le> j \<and> j < int (length initial)) \<and> 0 < length initial"
    and k: "k < length initial"
    and none: "\<forall>i < length index. index ! i \<noteq> int k"
  from valid have run: "groupby_python index value initial
           = (None, foldl (add_at index value) initial [0..<length index])"
    by (intro groupby_python_valid) simp_all
  have "wrapped (length initial) (index ! i) \<noteq> k" if "i < length index" for i
    using that valid none by (auto simp: wrapped_nonneg)
  then have "foldl (add_at index value) initial [0..<length index] ! k = initial ! k"
    using k by (intro nth_foldl_add_at_untouched) simp_all
  then show "snd (groupby_python index value initial) ! k = initial ! k"
    by (simp add: run)
next
  show "groupby_python [] ([] :: 'a list) initial = (None, initial)"
    by (simp add: groupby_python_def)
qed

theorem groupby_python_frame_witness:
  "length [0, 0 :: int] = length [3, 4 :: int]
   \<and> list_all (\<lambda>j. 0 \<le> j \<and> j < int (length [5, 6 :: int])) [0, 0 :: int]
   \<and> 0 < length [5, 6 :: int]
   \<and> (1 :: nat) < length [5, 6 :: int]
   \<and> int 1 \<notin> set [0, 0 :: int]
   \<and> snd (groupby_python [0, 0] [3, 4 :: int] [5, 6]) ! 1 = [5, 6] ! 1
   \<and> groupby_python [] ([] :: int list) [5, 6] = (None, [5, 6])"
  using groupby_python_frame [of "[0, 0]" "[3, 4 :: int]" "[5, 6]"]
  by (simp add: All_less_Suc2 numeral_2_eq_2)

section \<open>Where the loop raises\<close>

lemma first_out_of_range:
  assumes "\<exists>i < length index. index ! i < - int n \<or> int n \<le> index ! i"
  obtains p where "p < length index"
    and "index ! p < - int n \<or> int n \<le> index ! p"
    and "\<forall>i < p. - int n \<le> index ! i \<and> index ! i < int n"
proof -
  let ?P = "\<lambda>i. i < length index \<and> (index ! i < - int n \<or> int n \<le> index ! i)"
  from assms have ex: "\<exists>i. ?P i" by blast
  define p where "p = (LEAST i. ?P i)"
  have p: "?P p"
    unfolding p_def using ex by (rule LeastI_ex)
  have "\<not> ?P i" if "i < p" for i
    using that unfolding p_def by (rule not_less_Least)
  then have "\<forall>i < p. - int n \<le> index ! i \<and> index ! i < int n"
    using p by (metis less_trans not_less)
  with p show thesis
    by (intro that) simp_all
qed

lemma groupby_python_bucket_raises:
  assumes "length index \<le> length value"
    and "p < length index"
    and "index ! p < - int (length out) \<or> int (length out) \<le> index ! p"
    and "\<forall>i < p. - int (length out) \<le> index ! i \<and> index ! i < int (length out)"
  shows "groupby_python index value out
       = (Some (IndexError (index ! p) (length out)), foldl (add_at index value) out [0..<p])"
proof (rule groupby_python_stops)
  show "p < length index" by fact
  show "\<forall>i < p. i < length value
          \<and> - int (length out) \<le> index ! i \<and> index ! i < int (length out)"
    using assms by auto
  show "loop_body index value p (foldl (add_at index value) out [0..<p])
      = Inl (IndexError (index ! p) (length out))"
    using assms loop_body_bucket_out_of_range
      [of p index "foldl (add_at index value) out [0..<p]" "value"]
    by (simp add: length_foldl_add_at)
qed

lemma groupby_python_value_raises:
  assumes "length value < length index"
    and "\<forall>i < length index. - int (length out) \<le> index ! i \<and> index ! i < int (length out)"
  shows "groupby_python index value out
       = (Some (IndexError (int (length value)) (length value)),
          foldl (add_at index value) out [0..<length value])"
proof (rule groupby_python_stops)
  show "length value < length index" by fact
  show "\<forall>i < length value. i < length value
          \<and> - int (length out) \<le> index ! i \<and> index ! i < int (length out)"
    using assms by auto
  show "loop_body index value (length value)
          (foldl (add_at index value) out [0..<length value])
      = Inl (IndexError (int (length value)) (length value))"
    using assms loop_body_value_missing
      [of "length value" index "value" "foldl (add_at index value) out [0..<length value]"]
    by (simp add: length_foldl_add_at)
qed

section \<open>Negative indices\<close>

lemma add_at_wrap:
  "add_at index value buf i =
     (let k = nat (if index ! i < 0 then int (length buf) + index ! i else index ! i)
      in buf[k := buf ! k + value ! i])"
  by (simp add: add_at_def wrapped_def Let_def add.commute)

text \<open>
  C9. Take values at least as many as the indices, \<open>M\<close> the length of the buffer.
  If every index is in \<open>[-M, M)\<close> the kernel \<open>groupby_python\<close> raises nothing, and
  a negative index \<open>indices[i]\<close> adds \<open>values[i]\<close> into cell \<open>M + indices[i]\<close>:
  the buffer is the left-to-right fold with the subscripts counted from the end.
  And the kernel raises exactly when some index is at least \<open>M\<close> or below \<open>-M\<close>.
\<close>

theorem groupby_python_negative_wraparound:
  fixes "value" :: "'a::plus list"
  assumes "length index \<le> length value"
  shows "((\<forall>i < length index. - int (length out) \<le> index ! i \<and> index ! i < int (length out))
          \<longrightarrow> groupby_python index value out
               = (None,
                  foldl (\<lambda>buf i.
                           let k = nat (if index ! i < 0 then int (length out) + index ! i
                                        else index ! i)
                           in buf[k := buf ! k + value ! i])
                    out [0..<length index]))
       \<and> (fst (groupby_python index value out) \<noteq> None
            \<longleftrightarrow> (\<exists>i < length index. index ! i < - int (length out) \<or> int (length out) \<le> index ! i))"
proof (intro conjI impI iffI)
  assume ok: "\<forall>i < length index. - int (length out) \<le> index ! i \<and> index ! i < int (length out)"
  have same: "foldl (add_at index value) buf ps
      = foldl (\<lambda>buf i.
                 let k = nat (if index ! i < 0 then int (length out) + index ! i else index ! i)
                 in buf[k := buf ! k + value ! i]) buf ps"
    if "length buf = length out" for buf ps
    using that
  proof (induction ps arbitrary: buf)
    case Nil
    show ?case by simp
  next
    case (Cons i ps)
    have "add_at index value buf i
        = (let k = nat (if index ! i < 0 then int (length out) + index ! i else index ! i)
           in buf[k := buf ! k + value ! i])"
      using Cons.prems by (simp add: add_at_wrap)
    moreover have "length (add_at index value buf i) = length out"
      using Cons.prems by (simp add: length_add_at)
    ultimately show ?case
      using Cons.IH [of "add_at index value buf i"] by simp
  qed
  show "groupby_python index value out
      = (None,
         foldl (\<lambda>buf i.
                  let k = nat (if index ! i < 0 then int (length out) + index ! i else index ! i)
                  in buf[k := buf ! k + value ! i])
           out [0..<length index])"
    using assms ok same [of out "[0..<length index]"]
    by (simp add: groupby_python_in_range)
next
  assume "fst (groupby_python index value out) \<noteq> None"
  then show "\<exists>i < length index. index ! i < - int (length out) \<or> int (length out) \<le> index ! i"
    using assms groupby_python_in_range [of index "value" out]
    by (metis fst_conv not_less)
next
  assume "\<exists>i < length index. index ! i < - int (length out) \<or> int (length out) \<le> index ! i"
  then obtain p where "p < length index"
    and "index ! p < - int (length out) \<or> int (length out) \<le> index ! p"
    and "\<forall>i < p. - int (length out) \<le> index ! i \<and> index ! i < int (length out)"
    by (rule first_out_of_range)
  then have "groupby_python index value out
      = (Some (IndexError (index ! p) (length out)), foldl (add_at index value) out [0..<p])"
    using assms by (intro groupby_python_bucket_raises) simp_all
  then show "fst (groupby_python index value out) \<noteq> None"
    by simp
qed

theorem groupby_python_negative_wraparound_witness:
  "length [- 1, 0, - 3 :: int] \<le> length [7, 8, 9 :: int]
   \<and> groupby_python [- 1, 0, - 3] [7, 8, 9 :: int] [100, 200, 300] = (None, [117, 200, 307])
   \<and> fst (groupby_python [- 4] [7 :: int] [100, 200, 300]) \<noteq> None
   \<and> fst (groupby_python [3] [7 :: int] [100, 200, 300]) \<noteq> None"
  using groupby_python_negative_wraparound [of "[- 1, 0, - 3]" "[7, 8, 9 :: int]" "[100, 200, 300]"]
    groupby_python_negative_wraparound [of "[- 4]" "[7 :: int]" "[100, 200, 300]"]
    groupby_python_negative_wraparound [of "[3]" "[7 :: int]" "[100, 200, 300]"]
  by (simp add: upt_conv_Cons All_less_Suc2 numeral_3_eq_3 numeral_2_eq_2)


section \<open>Indices out of range\<close>

text \<open>
  C2, as the code has it. Take values at least as many as the indices, \<open>M\<close> the
  length of the buffer. If position \<open>p\<close> is the first whose index is at least \<open>M\<close>
  or below \<open>-M\<close>, the kernel raises \<open>IndexError\<close> there; the exception names the
  index and \<open>M\<close> (not the position), and the values of the positions before \<open>p\<close>
  stay added to the buffer. In particular the kernel raises \<open>IndexError\<close> on the
  single index \<open>M\<close> and a buffer of \<open>M\<close> equal cells, which it leaves as they
  were. An index in \<open>[-M, 0)\<close> raises nothing: it counts from the end (C9).
\<close>

theorem groupby_python_index_error:
  fixes "value" :: "'a::plus list"
  shows "(length index \<le> length value
          \<and> p < length index
          \<and> (index ! p < - int (length out) \<or> int (length out) \<le> index ! p)
          \<and> (\<forall>i < p. - int (length out) \<le> index ! i \<and> index ! i < int (length out))
          \<longrightarrow> groupby_python index value out
               = (Some (IndexError (index ! p) (length out)),
                  foldl (add_at index value) out [0..<p]))
       \<and> groupby_python [int M] [v] (replicate M z)
           = (Some (IndexError (int M) M), replicate M z)"
proof (intro conjI impI)
  assume "length index \<le> length value
      \<and> p < length index
      \<and> (index ! p < - int (length out) \<or> int (length out) \<le> index ! p)
      \<and> (\<forall>i < p. - int (length out) \<le> index ! i \<and> index ! i < int (length out))"
  then show "groupby_python index value out
      = (Some (IndexError (index ! p) (length out)), foldl (add_at index value) out [0..<p])"
    by (intro groupby_python_bucket_raises) simp_all
next
  show "groupby_python [int M] [v] (replicate M z)
      = (Some (IndexError (int M) M), replicate M z)"
    using groupby_python_bucket_raises [of "[int M]" "[v]" 0 "replicate M z"]
    by simp
qed

theorem groupby_python_index_error_witness:
  "length [0, 5, 1 :: int] \<le> length [7, 8, 9 :: int]
   \<and> (1 :: nat) < length [0, 5, 1 :: int]
   \<and> int (length [100, 200 :: int]) \<le> [0, 5, 1] ! 1
   \<and> groupby_python [0, 5, 1] [7, 8, 9 :: int] [100, 200]
       = (Some (IndexError 5 2), [107, 200])
   \<and> groupby_python [3] [1 :: int] [0, 0, 0] = (Some (IndexError 3 3), [0, 0, 0])"
  using groupby_python_index_error [of "[0, 5, 1]" "[7, 8, 9 :: int]" 1 "[100, 200]" 3 1 0]
  by (simp add: upt_conv_Cons add_at_def wrapped_def numeral_3_eq_3 numeral_2_eq_2)

text \<open>
  C2 as stated fails: the index \<open>-1\<close> is outside \<open>[0, 1)\<close>, and the kernel raises
  nothing and adds the value to the last cell.
\<close>

theorem groupby_python_negative_index_counterexample:
  "\<not> (0 \<le> (- 1 :: int) \<and> (- 1 :: int) < int (length [0 :: real]))
   \<and> groupby_python [- 1] [1 :: real] [0] = (None, [1])"
  by (simp add: groupby_python_def loop_body_def getitem_def setitem_def
      check_and_adjust_index_def wrapped_def)

section \<open>Indices and values of different lengths\<close>

text \<open>
  C3, as the code has it. Take every index in \<open>[-M, M)\<close>, \<open>M\<close> the length of the
  buffer. With fewer values than indices the kernel raises \<open>IndexError\<close> when the
  loop reaches the first position without a value, and the values before it stay
  added to the buffer; the kernel compares no lengths beforehand. With more values
  than indices it raises nothing and the surplus values are not read.
\<close>

theorem groupby_python_length_mismatch:
  fixes "value" :: "'a::plus list"
  assumes "\<forall>i < length index. - int (length out) \<le> index ! i \<and> index ! i < int (length out)"
  shows "(length value < length index
          \<longrightarrow> groupby_python index value out
               = (Some (IndexError (int (length value)) (length value)),
                  foldl (add_at index value) out [0..<length value]))
       \<and> (length index < length value
          \<longrightarrow> groupby_python index value out
               = (None, foldl (add_at index value) out [0..<length index]))"
  using assms
  by (simp add: groupby_python_value_raises groupby_python_in_range)

theorem groupby_python_length_mismatch_witness:
  "length [1 :: int] < length [0, 1 :: int]
   \<and> groupby_python [0, 1] [1 :: int] [0, 0, 0, 0, 0]
       = (Some (IndexError 1 1), [1, 0, 0, 0, 0])
   \<and> length [0 :: int] < length [1, 2 :: int]
   \<and> groupby_python [0] [1, 2 :: int] [0, 0, 0, 0, 0] = (None, [1, 0, 0, 0, 0])"
  using groupby_python_length_mismatch [of "[0, 1]" "[0, 0, 0, 0, 0]" "[1 :: int]"]
    groupby_python_length_mismatch [of "[0]" "[0, 0, 0, 0, 0]" "[1, 2 :: int]"]
  by (simp add: upt_conv_Cons add_at_def wrapped_def All_less_Suc2 numeral_2_eq_2)

text \<open>
  C3 as stated fails on the scenario of the specification: two indices and one
  value. The exception is the \<open>IndexError\<close> of the second iteration, and the first
  iteration has changed the buffer by then.
\<close>

theorem groupby_python_length_mismatch_counterexample:
  "length [0, 1 :: int] \<noteq> length [1 :: real]
   \<and> groupby_python [0, 1] [1 :: real] [0, 0, 0, 0, 0]
       = (Some (IndexError 1 1), [1, 0, 0, 0, 0])
   \<and> [1, 0, 0, 0, 0] \<noteq> [0, 0, 0, 0, 0 :: real]"
  by (simp add: groupby_python_def upt_conv_Cons loop_body_def getitem_def setitem_def
      check_and_adjust_index_def wrapped_def)

section \<open>Rounding to float32 and float64\<close>









section \<open>The three clamps\<close>









end
